theory Spec2Isabelle
  imports Complex_Main "HOL-Library.Multiset"
begin

section \<open>JavaScript numbers\<close>

text \<open>
  A JavaScript \<open>number\<close> is a finite value, one of the two infinities, or NaN. Finite
  values are modelled as reals: rounding to the nearest double, overflow of a finite
  operation to an infinity, and the sign of zero are not modelled. Everything the code
  branches on is: the special values, division by zero and truthiness.
\<close>

datatype jsnum = Fin real | PosInf | NegInf | NaN

fun isFinite :: "jsnum \<Rightarrow> bool" where
  "isFinite (Fin a) = True"
| "isFinite PosInf = False"
| "isFinite NegInf = False"
| "isFinite NaN = False"

text \<open>\<open>if (x)\<close> on a number: \<open>0\<close> and \<open>NaN\<close> are falsy, every other number is truthy.\<close>

fun truthy :: "jsnum \<Rightarrow> bool" where
  "truthy (Fin a) = (a \<noteq> 0)"
| "truthy PosInf = True"
| "truthy NegInf = True"
| "truthy NaN = False"

text \<open>
  \<open>if (x)\<close> on a \<open>number | null\<close> (or \<open>number | undefined\<close>): \<open>null\<close> and
  \<open>undefined\<close> are falsy as well.
\<close>

fun truthy_opt :: "jsnum option \<Rightarrow> bool" where
  "truthy_opt None = False"
| "truthy_opt (Some x) = truthy x"

fun jneg :: "jsnum \<Rightarrow> jsnum" where
  "jneg (Fin a) = Fin (- a)"
| "jneg PosInf = NegInf"
| "jneg NegInf = PosInf"
| "jneg NaN = NaN"

fun jadd :: "jsnum \<Rightarrow> jsnum \<Rightarrow> jsnum" where
  "jadd (Fin a) (Fin b) = Fin (a + b)"
| "jadd NaN y = NaN"
| "jadd x NaN = NaN"
| "jadd PosInf NegInf = NaN"
| "jadd NegInf PosInf = NaN"
| "jadd PosInf y = PosInf"
| "jadd NegInf y = NegInf"
| "jadd (Fin a) y = y"

definition jsub :: "jsnum \<Rightarrow> jsnum \<Rightarrow> jsnum" where
  "jsub x y = jadd x (jneg y)"

text \<open>The sign of a number that is not NaN, as \<open>-1\<close>, \<open>0\<close> or \<open>1\<close>.\<close>

fun jsign :: "jsnum \<Rightarrow> int" where
  "jsign (Fin a) = (if a < 0 then - 1 else if a = 0 then 0 else 1)"
| "jsign PosInf = 1"
| "jsign NegInf = - 1"
| "jsign NaN = 0"

definition signedInf :: "int \<Rightarrow> jsnum" where
  "signedInf s = (if s = 0 then NaN else if 0 < s then PosInf else NegInf)"

fun jmul :: "jsnum \<Rightarrow> jsnum \<Rightarrow> jsnum" where
  "jmul (Fin a) (Fin b) = Fin (a * b)"
| "jmul NaN y = NaN"
| "jmul x NaN = NaN"
| "jmul x y = signedInf (jsign x * jsign y)"

text \<open>
  Division. A finite value divided by zero is an infinity of the sign of the numerator,
  and \<open>0 / 0\<close> is NaN; nothing is raised.
\<close>

fun jdiv :: "jsnum \<Rightarrow> jsnum \<Rightarrow> jsnum" where
  "jdiv (Fin a) (Fin b) = (if b \<noteq> 0 then Fin (a / b) else signedInf (jsign (Fin a)))"
| "jdiv NaN y = NaN"
| "jdiv x NaN = NaN"
| "jdiv (Fin a) y = Fin 0"
| "jdiv x (Fin b) = signedInf (jsign x * (if b < 0 then - 1 else 1))"
| "jdiv x y = NaN"

text \<open>\<open>a > b\<close> and \<open>a < b\<close>: false as soon as one side is NaN.\<close>

fun jlt :: "jsnum \<Rightarrow> jsnum \<Rightarrow> bool" where
  "jlt (Fin a) (Fin b) = (a < b)"
| "jlt NaN y = False"
| "jlt x NaN = False"
| "jlt x PosInf = (x \<noteq> PosInf)"
| "jlt NegInf y = (y \<noteq> NegInf)"
| "jlt x y = False"

definition jgt :: "jsnum \<Rightarrow> jsnum \<Rightarrow> bool" where
  "jgt x y = jlt y x"

section \<open>The data model (types.ts)\<close>

datatype Direction = LONG | SHORT

datatype Sentiment = BULLISH | BEARISH | NEUTRAL | MIXED

datatype AssetType = Crypto | Stock

datatype Category = Liquid | Vested | Farming

datatype Status = Open | Win | Loss | Breakeven

text \<open>
  \<open>Omit<JournalEntry, 'id'>\<close>, and \<open>JournalEntry\<close> as its extension by the id, which is
  how the code builds one (\<open>{ ...entry, id }\<close>).
\<close>

record JournalData =
  entry_date :: string
  macroReview :: string
  altsMarket :: string
  summary :: string
  sentiment :: Sentiment

record JournalEntry = JournalData +
  entry_id :: string

text \<open>
  \<open>assetType\<close> may be missing on items stored by an older version (the code tests
  \<open>!item.assetType\<close>), so it is optional here.
\<close>

record PortfolioData =
  token :: string
  amount :: jsnum
  buyPrice :: jsnum
  currentPrice :: jsnum
  category :: Category
  assetType :: "AssetType option"

record PortfolioItem = PortfolioData +
  item_id :: string

text \<open>
  \<open>Omit<Trade, 'id' | 'pnl'>\<close> and \<open>Trade\<close>. \<open>exitPrice\<close> and \<open>pnl\<close> are
  \<open>number | null\<close>; \<open>exitReason\<close> and \<open>postExitReflection\<close> are optional.
\<close>

record TradeData =
  date :: string
  ticker :: string
  direction :: Direction
  entryPrice :: jsnum
  exitPrice :: "jsnum option"
  size_t :: jsnum
  status :: Status
  rationale :: string
  exitReason :: "string option"
  postExitReflection :: "string option"

record Trade = TradeData +
  trade_id :: string
  pnl :: "jsnum option"

text \<open>
  \<open>Partial<Omit<Trade, 'id' | 'pnl'>>\<close>: each key is absent (\<open>None\<close>) or carries a
  value of the field's type. The spread \<open>{ ...currentTrade, ...updates }\<close> overwrites
  exactly the keys that are there.
\<close>

record TradeUpdates =
  u_date :: "string option"
  u_ticker :: "string option"
  u_direction :: "Direction option"
  u_entryPrice :: "jsnum option"
  u_exitPrice :: "jsnum option option"
  u_size :: "jsnum option"
  u_status :: "Status option"
  u_rationale :: "string option"
  u_exitReason :: "string option option"
  u_postExitReflection :: "string option option"

record PortfolioUpdates =
  u_token :: "string option"
  u_amount :: "jsnum option"
  u_buyPrice :: "jsnum option"
  u_currentPrice :: "jsnum option"
  u_category :: "Category option"
  u_assetType :: "AssetType option option"

section \<open>The store (DataContext.tsx)\<close>

text \<open>
  What \<open>persistToLS\<close> hands to \<open>JSON.stringify\<close> under a key; the serialised text
  itself is not modelled.
\<close>

datatype ls_value =
  LSJournal "JournalEntry list"
| LSPortfolio "PortfolioItem list"
| LSTrades "Trade list"

text \<open>
  The state of the provider: the three collections, the live prices, and what the
  mutations touch besides: local storage and the refreshes scheduled with
  \<open>setTimeout(refreshPrices, 500)\<close> that have not run yet.
\<close>

record store =
  journalEntries :: "JournalEntry list"
  portfolioItems :: "PortfolioItem list"
  trades :: "Trade list"
  livePrices :: "string \<rightharpoonup> jsnum"
  lastUpdated :: "nat option"
  isRefreshing :: bool
  localStorage :: "string \<rightharpoonup> ls_value"
  scheduledRefreshes :: nat

text \<open>
  Every mutation takes \<open>remote\<close>, the value of \<open>isSupabaseConfigured && supabase\<close>
  (fixed when the module loads), and \<open>error\<close>, the \<open>error\<close> field of the reply of the
  remote table (\<open>None\<close> is \<open>null\<close>: the operation succeeded). The reply is only read
  on the remote path. A mutation runs on the state as it is when the call is made: the
  calls come from the views, one after the other, each from a render that has seen the
  previous one. (\<open>refreshPrices\<close>, which timers call, is another matter: see below.)
\<close>

definition persistToLS :: "bool \<Rightarrow> string \<Rightarrow> ls_value \<Rightarrow> store \<Rightarrow> store" where
  "persistToLS remote key data s =
     (if \<not> remote then s\<lparr>localStorage := (localStorage s)(key \<mapsto> data)\<rparr> else s)"

subsection \<open>Journal entries\<close>

definition addJournalEntry ::
  "bool \<Rightarrow> string option \<Rightarrow> string \<Rightarrow> JournalData \<Rightarrow> store \<Rightarrow> store" where
  "addJournalEntry remote error uuid entry s =
     (let newEntry = JournalData.extend entry (JournalEntry.fields uuid) in
      if remote then
        (if error = None then s\<lparr>journalEntries := newEntry # journalEntries s\<rparr> else s)
      else
        (let updated = newEntry # journalEntries s in
         persistToLS remote ''journalEntries'' (LSJournal updated)
           (s\<lparr>journalEntries := updated\<rparr>)))"

definition deleteJournalEntry :: "bool \<Rightarrow> string option \<Rightarrow> string \<Rightarrow> store \<Rightarrow> store" where
  "deleteJournalEntry remote error i s =
     (if remote then
        (if error = None
         then s\<lparr>journalEntries := filter (\<lambda>item. entry_id item \<noteq> i) (journalEntries s)\<rparr>
         else s)
      else
        (let updated = filter (\<lambda>item. entry_id item \<noteq> i) (journalEntries s) in
         persistToLS remote ''journalEntries'' (LSJournal updated)
           (s\<lparr>journalEntries := updated\<rparr>)))"

subsection \<open>Portfolio items\<close>

text \<open>\<open>{ ...item, ...updates }\<close> on a portfolio item.\<close>

definition mergedItem :: "PortfolioItem \<Rightarrow> PortfolioUpdates \<Rightarrow> PortfolioItem" where
  "mergedItem item updates =
     item\<lparr>token := (case u_token updates of None \<Rightarrow> token item | Some v \<Rightarrow> v),
          amount := (case u_amount updates of None \<Rightarrow> amount item | Some v \<Rightarrow> v),
          buyPrice := (case u_buyPrice updates of None \<Rightarrow> buyPrice item | Some v \<Rightarrow> v),
          currentPrice :=
            (case u_currentPrice updates of None \<Rightarrow> currentPrice item | Some v \<Rightarrow> v),
          category := (case u_category updates of None \<Rightarrow> category item | Some v \<Rightarrow> v),
          assetType := (case u_assetType updates of None \<Rightarrow> assetType item | Some v \<Rightarrow> v)\<rparr>"

text \<open>
  Adding and editing an item end with \<open>setTimeout(refreshPrices, 500)\<close>, on every
  path: one more refresh is scheduled.
\<close>

definition scheduleRefresh :: "store \<Rightarrow> store" where
  "scheduleRefresh s = s\<lparr>scheduledRefreshes := Suc (scheduledRefreshes s)\<rparr>"

definition addPortfolioItem ::
  "bool \<Rightarrow> string option \<Rightarrow> string \<Rightarrow> PortfolioData \<Rightarrow> store \<Rightarrow> store" where
  "addPortfolioItem remote error uuid item s =
     (let newItem = PortfolioData.extend item (PortfolioItem.fields uuid) in
      scheduleRefresh
        (if remote then
           (if error = None then s\<lparr>portfolioItems := newItem # portfolioItems s\<rparr> else s)
         else
           (let updated = newItem # portfolioItems s in
            persistToLS remote ''portfolioItems'' (LSPortfolio updated)
              (s\<lparr>portfolioItems := updated\<rparr>))))"

definition editPortfolioItem ::
  "bool \<Rightarrow> string option \<Rightarrow> string \<Rightarrow> PortfolioUpdates \<Rightarrow> store \<Rightarrow> store" where
  "editPortfolioItem remote error i updates s =
     scheduleRefresh
       (if remote then
          (if error = None
           then s\<lparr>portfolioItems :=
                  map (\<lambda>item. if item_id item = i then mergedItem item updates else item)
                    (portfolioItems s)\<rparr>
           else s)
        else
          (let updated =
                 map (\<lambda>item. if item_id item = i then mergedItem item updates else item)
                   (portfolioItems s) in
           persistToLS remote ''portfolioItems'' (LSPortfolio updated)
             (s\<lparr>portfolioItems := updated\<rparr>)))"

definition deletePortfolioItem :: "bool \<Rightarrow> string option \<Rightarrow> string \<Rightarrow> store \<Rightarrow> store" where
  "deletePortfolioItem remote error i s =
     (if remote then
        (if error = None
         then s\<lparr>portfolioItems := filter (\<lambda>item. item_id item \<noteq> i) (portfolioItems s)\<rparr>
         else s)
      else
        (let updated = filter (\<lambda>item. item_id item \<noteq> i) (portfolioItems s) in
         persistToLS remote ''portfolioItems'' (LSPortfolio updated)
           (s\<lparr>portfolioItems := updated\<rparr>)))"

subsection \<open>Trades\<close>

text \<open>
  The \<open>pnl\<close> that \<open>addTrade\<close> computes before it builds the record: \<open>null\<close>, unless
  the status is not Open and \<open>tradeData.exitPrice\<close> is truthy.
\<close>

definition addTrade_pnl :: "TradeData \<Rightarrow> jsnum option" where
  "addTrade_pnl tradeData =
     (if status tradeData \<noteq> Open \<and> truthy_opt (exitPrice tradeData) then
        (let entryVal = entryPrice tradeData; exitVal = the (exitPrice tradeData) in
         if direction tradeData = LONG
         then Some (jmul (jdiv (jsub exitVal entryVal) entryVal) (size_t tradeData))
         else Some (jmul (jdiv (jsub entryVal exitVal) entryVal) (size_t tradeData)))
      else None)"

text \<open>\<open>newTrade = { ...tradeData, id: crypto.randomUUID(), pnl }\<close>.\<close>

definition newTrade :: "string \<Rightarrow> TradeData \<Rightarrow> Trade" where
  "newTrade uuid tradeData =
     TradeData.extend tradeData (Trade.fields uuid (addTrade_pnl tradeData))"

definition addTrade ::
  "bool \<Rightarrow> string option \<Rightarrow> string \<Rightarrow> TradeData \<Rightarrow> store \<Rightarrow> store" where
  "addTrade remote error uuid tradeData s =
     (let t = newTrade uuid tradeData in
      if remote then
        (if error = None then s\<lparr>trades := t # trades s\<rparr> else s)
      else
        (let updated = t # trades s in
         persistToLS remote ''trades'' (LSTrades updated) (s\<lparr>trades := updated\<rparr>)))"

text \<open>\<open>mergedTrade = { ...currentTrade, ...updates }\<close>.\<close>

definition mergedTrade :: "Trade \<Rightarrow> TradeUpdates \<Rightarrow> Trade" where
  "mergedTrade currentTrade updates =
     currentTrade\<lparr>
       date := (case u_date updates of None \<Rightarrow> date currentTrade | Some v \<Rightarrow> v),
       ticker := (case u_ticker updates of None \<Rightarrow> ticker currentTrade | Some v \<Rightarrow> v),
       direction :=
         (case u_direction updates of None \<Rightarrow> direction currentTrade | Some v \<Rightarrow> v),
       entryPrice :=
         (case u_entryPrice updates of None \<Rightarrow> entryPrice currentTrade | Some v \<Rightarrow> v),
       exitPrice :=
         (case u_exitPrice updates of None \<Rightarrow> exitPrice currentTrade | Some v \<Rightarrow> v),
       size_t := (case u_size updates of None \<Rightarrow> size_t currentTrade | Some v \<Rightarrow> v),
       status := (case u_status updates of None \<Rightarrow> status currentTrade | Some v \<Rightarrow> v),
       rationale :=
         (case u_rationale updates of None \<Rightarrow> rationale currentTrade | Some v \<Rightarrow> v),
       exitReason :=
         (case u_exitReason updates of None \<Rightarrow> exitReason currentTrade | Some v \<Rightarrow> v),
       postExitReflection :=
         (case u_postExitReflection updates of
            None \<Rightarrow> postExitReflection currentTrade | Some v \<Rightarrow> v)\<rparr>"

text \<open>
  The \<open>pnl\<close> of an edit: it starts as the stored one, is recomputed when the merged
  record is not Open and has a truthy exit price, and is cleared when the merged record
  is Open. In the remaining case (not Open, exit price falsy) the stored one stays.
\<close>

definition editTrade_pnl :: "Trade \<Rightarrow> Trade \<Rightarrow> jsnum option" where
  "editTrade_pnl currentTrade merged =
     (if status merged \<noteq> Open \<and> truthy_opt (exitPrice merged) then
        (let entry = entryPrice merged; exit = the (exitPrice merged); sz = size_t merged in
         if direction merged = LONG
         then Some (jmul (jdiv (jsub exit entry) entry) sz)
         else Some (jmul (jdiv (jsub entry exit) entry) sz))
      else if status merged = Open then None
      else pnl currentTrade)"

text \<open>\<open>finalTrade = { ...mergedTrade, pnl }\<close>.\<close>

definition finalTrade :: "Trade \<Rightarrow> TradeUpdates \<Rightarrow> Trade" where
  "finalTrade currentTrade updates =
     (let merged = mergedTrade currentTrade updates in
      merged\<lparr>pnl := editTrade_pnl currentTrade merged\<rparr>)"

text \<open>
  \<open>trades.find\<close> yields the first trade with the id; without one the function
  returns at once. The \<open>map\<close> then replaces every trade with the id.
\<close>

definition editTrade ::
  "bool \<Rightarrow> string option \<Rightarrow> string \<Rightarrow> TradeUpdates \<Rightarrow> store \<Rightarrow> store" where
  "editTrade remote error i updates s =
     (case find (\<lambda>t. trade_id t = i) (trades s) of
        None \<Rightarrow> s
      | Some currentTrade \<Rightarrow>
          (let final = finalTrade currentTrade updates in
           if remote then
             (if error = None
              then s\<lparr>trades := map (\<lambda>t. if trade_id t = i then final else t) (trades s)\<rparr>
              else s)
           else
             (let updated = map (\<lambda>t. if trade_id t = i then final else t) (trades s) in
              persistToLS remote ''trades'' (LSTrades updated) (s\<lparr>trades := updated\<rparr>))))"

definition deleteTrade :: "bool \<Rightarrow> string option \<Rightarrow> string \<Rightarrow> store \<Rightarrow> store" where
  "deleteTrade remote error i s =
     (if remote then
        (if error = None
         then s\<lparr>trades := filter (\<lambda>item. trade_id item \<noteq> i) (trades s)\<rparr>
         else s)
      else
        (let updated = filter (\<lambda>item. trade_id item \<noteq> i) (trades s) in
         persistToLS remote ''trades'' (LSTrades updated) (s\<lparr>trades := updated\<rparr>)))"

definition clearTrades :: "bool \<Rightarrow> string option \<Rightarrow> store \<Rightarrow> store" where
  "clearTrades remote error s =
     (if remote then
        (if error = None then s\<lparr>trades := []\<rparr> else s)
      else persistToLS remote ''trades'' (LSTrades []) (s\<lparr>trades := []\<rparr>))"

subsection \<open>Refreshing the live prices\<close>

text \<open>
  \<open>String.prototype.toUpperCase\<close> on the letters \<open>a\<close> to \<open>z\<close>; a string is a list
  of bytes here, and other characters stay as they are.
\<close>

definition upperChar :: "char \<Rightarrow> char" where
  "upperChar c =
     (let n = (of_char c :: nat) in if 97 \<le> n \<and> n \<le> 122 then char_of (n - 32) else c)"

definition toUpperCase :: "string \<Rightarrow> string" where
  "toUpperCase str = map upperChar str"

text \<open>
  \<open>Number(x.toFixed(2))\<close>: the nearest multiple of \<open>0.01\<close>, a tie going away from
  zero; from \<open>1e21\<close> on \<open>toFixed\<close> prints the number itself.
\<close>

fun toFixed2 :: "jsnum \<Rightarrow> jsnum" where
  "toFixed2 (Fin a) =
     (if 10 ^ 21 \<le> \<bar>a\<bar> then Fin a
      else Fin ((if a < 0 then - 1 else 1) * of_int \<lfloor>\<bar>a\<bar> * 100 + 1 / 2\<rfloor> / 100))"
| "toFixed2 PosInf = PosInf"
| "toFixed2 NegInf = NegInf"
| "toFixed2 NaN = NaN"

text \<open>\<open>item.assetType === 'Crypto' || !item.assetType\<close>.\<close>

definition isCryptoItem :: "PortfolioItem \<Rightarrow> bool" where
  "isCryptoItem item = (assetType item = Some Crypto \<or> assetType item = None)"

definition cryptoTickers :: "PortfolioItem list \<Rightarrow> string set" where
  "cryptoTickers items = set (map (\<lambda>item. toUpperCase (token item)) (filter isCryptoItem items))"

definition stockItems :: "PortfolioItem list \<Rightarrow> PortfolioItem list" where
  "stockItems items = filter (\<lambda>item. \<not> isCryptoItem item) items"

text \<open>
  \<open>Object.keys(data).forEach(ticker => { newPrices[ticker] = data[ticker].USD })\<close>,
  the reply being the list of its keys with their USD prices, in the order of the keys.
  The prices are numbers, as the type \<open>Record<string, number>\<close> of the map says.
\<close>

fun mergeCrypto :: "(string \<times> jsnum) list \<Rightarrow> (string \<rightharpoonup> jsnum) \<Rightarrow> (string \<rightharpoonup> jsnum)" where
  "mergeCrypto [] newPrices = newPrices"
| "mergeCrypto ((key, usd) # rest) newPrices = mergeCrypto rest (newPrices(key \<mapsto> usd))"

text \<open>
  The price synthesised for one stock item: the price already in \<open>newPrices\<close> under the
  item's token (as stored, not uppercased) if that is truthy, else the item's
  \<open>currentPrice\<close>, moved by at most half a percent. \<open>r\<close> is what \<open>Math.random()\<close>
  returned.
\<close>

definition simulatedPrice :: "jsnum \<Rightarrow> PortfolioItem \<Rightarrow> (string \<rightharpoonup> jsnum) \<Rightarrow> jsnum" where
  "simulatedPrice r item newPrices =
     (let current =
            (if truthy_opt (newPrices (token item)) then the (newPrices (token item))
             else currentPrice item);
          change = jadd (Fin 1) (jmul (jsub r (Fin (1 / 2))) (Fin (1 / 100)))
      in toFixed2 (jmul current change))"

text \<open>
  The loop over the stock items; \<open>random k\<close> is the result of the \<open>k\<close>-th call of
  \<open>Math.random()\<close> in the cycle.
\<close>

fun simulateStocks ::
  "(nat \<Rightarrow> jsnum) \<Rightarrow> nat \<Rightarrow> PortfolioItem list \<Rightarrow> (string \<rightharpoonup> jsnum) \<Rightarrow> (string \<rightharpoonup> jsnum)" where
  "simulateStocks random k [] newPrices = newPrices"
| "simulateStocks random k (item # items) newPrices =
     simulateStocks random (Suc k) items
       (newPrices(token item \<mapsto> simulatedPrice (random k) item newPrices))"

text \<open>
  The crypto step of a cycle: skipped when there is no crypto ticker; \<open>fetched\<close> is
  the parsed reply of the price service, \<open>None\<close> when \<open>fetch\<close> or \<open>json()\<close> threw
  (the error is logged and nothing is merged).
\<close>

definition fetchCrypto ::
  "(string \<times> jsnum) list option \<Rightarrow> PortfolioItem list \<Rightarrow> (string \<rightharpoonup> jsnum) \<Rightarrow> (string \<rightharpoonup> jsnum)" where
  "fetchCrypto fetched items newPrices =
     (if cryptoTickers items \<noteq> {} then
        (case fetched of None \<Rightarrow> newPrices | Some data \<Rightarrow> mergeCrypto data newPrices)
      else newPrices)"

text \<open>
  \<open>refreshPrices\<close> is a \<open>useCallback\<close> closure: the \<open>portfolioItems\<close> and the
  \<open>livePrices\<close> it reads are those of the render that created it, while
  \<open>setLivePrices\<close> writes to the state of the moment. A \<open>render\<close> is what such a
  closure holds.
\<close>

record render =
  r_portfolioItems :: "PortfolioItem list"
  r_livePrices :: "string \<rightharpoonup> jsnum"

definition currentRender :: "store \<Rightarrow> render" where
  "currentRender s = \<lparr>r_portfolioItems = portfolioItems s, r_livePrices = livePrices s\<rparr>"

text \<open>
  One cycle of the closure of render \<open>r\<close>, run on the state \<open>s\<close>; \<open>now\<close> is
  \<open>new Date()\<close> at its end. The new map is built from the closure's map and replaces
  the one of the state.
\<close>

definition refreshPrices ::
  "render \<Rightarrow> (string \<times> jsnum) list option \<Rightarrow> (nat \<Rightarrow> jsnum) \<Rightarrow> nat \<Rightarrow> store \<Rightarrow> store" where
  "refreshPrices r fetched random now s =
     (if r_portfolioItems r = [] then s
      else
        (let newPrices = fetchCrypto fetched (r_portfolioItems r) (r_livePrices r);
             newPrices' = simulateStocks random 0 (stockItems (r_portfolioItems r)) newPrices
         in s\<lparr>livePrices := newPrices', lastUpdated := Some now, isRefreshing := False\<rparr>))"

text \<open>
  The polling effect. Its dependencies are \<open>[loading, portfolioItems.length]\<close>, so it
  runs in the render where loading has ended and again only when the number of items
  changes. With a portfolio that is not empty it calls \<open>refreshPrices\<close> of its render
  at once and hands the same function to \<open>setInterval\<close>: every tick, 15 seconds
  apart, runs the closure of the render of the effect, whatever has been rendered
  since. A cycle is given by what the environment supplies to it: the reply of the
  price service, the random numbers and the date. \<open>ticks\<close> are the cycles of the
  interval until the effect is run again.
\<close>

type_synonym cycle = "(string \<times> jsnum) list option \<times> (nat \<Rightarrow> jsnum) \<times> nat"

definition pollingEffect :: "cycle \<Rightarrow> cycle list \<Rightarrow> store \<Rightarrow> store" where
  "pollingEffect first ticks s =
     (if portfolioItems s \<noteq> [] then
        (let r = currentRender s in
         fold (\<lambda>(fetched, random, now). refreshPrices r fetched random now) (first # ticks) s)
      else s)"

section \<open>The portfolio view (PortfolioBreakdown.tsx)\<close>

text \<open>A row of \<open>dataByToken\<close>: the item, extended by what the view derives.\<close>

record StatsRow = PortfolioItem +
  effectivePrice :: jsnum
  isLive :: bool
  value_r :: jsnum
  pnl_r :: jsnum
  invested :: jsnum

definition statsRow :: "(string \<rightharpoonup> jsnum) \<Rightarrow> PortfolioItem \<Rightarrow> StatsRow" where
  "statsRow prices item =
     (let livePrice = prices (toUpperCase (token item));
          effective = (case livePrice of Some p \<Rightarrow> p | None \<Rightarrow> currentPrice item);
          v = jmul effective (amount item);
          inv = jmul (buyPrice item) (amount item)
      in PortfolioItem.extend item
           (StatsRow.fields effective (livePrice \<noteq> None) v (jsub v inv) inv))"

text \<open>
  \<open>.sort((a, b) => b.value - a.value)\<close>: a stable sort, larger values first. A row
  moves behind another one only where the comparator is positive; a comparator that
  yields NaN counts as zero.
\<close>

fun insertRow :: "StatsRow \<Rightarrow> StatsRow list \<Rightarrow> StatsRow list" where
  "insertRow a [] = [a]"
| "insertRow a (b # bs) =
     (if jgt (jsub (value_r b) (value_r a)) (Fin 0) then b # insertRow a bs else a # b # bs)"

definition sortRows :: "StatsRow list \<Rightarrow> StatsRow list" where
  "sortRows rows = foldr insertRow rows []"

record Stats =
  totalValue :: jsnum
  totalInvested :: jsnum
  dataByToken :: "StatsRow list"

definition stats :: "PortfolioItem list \<Rightarrow> (string \<rightharpoonup> jsnum) \<Rightarrow> Stats" where
  "stats items prices =
     (let rows = map (statsRow prices) items in
      \<lparr>totalValue = fold (\<lambda>r acc. jadd acc (value_r r)) rows (Fin 0),
       totalInvested = fold (\<lambda>r acc. jadd acc (invested r)) rows (Fin 0),
       dataByToken = sortRows rows\<rparr>)"

section \<open>The trade form (TradingJournal.tsx)\<close>

text \<open>The form holds what the user typed: the numbers are still strings.\<close>

record TradeForm =
  f_date :: string
  f_ticker :: string
  f_direction :: Direction
  f_entryPrice :: string
  f_exitPrice :: string
  f_size :: string
  f_status :: Status
  f_rationale :: string
  f_exitReason :: string
  f_postExitReflection :: string

text \<open>
  The handler of the exit price field. \<open>toNumber\<close> is JavaScript's \<open>Number\<close> on
  strings; a string is truthy when it is not empty.
\<close>

definition handleExitPriceChange :: "(string \<Rightarrow> jsnum) \<Rightarrow> string \<Rightarrow> TradeForm \<Rightarrow> TradeForm" where
  "handleExitPriceChange toNumber price prev =
     (let newStatus =
            (if price \<noteq> [] \<and> f_entryPrice prev \<noteq> [] then
               (let entry = toNumber (f_entryPrice prev); exit = toNumber price in
                if f_direction prev = LONG then
                  (if jgt exit entry then Win else if jlt exit entry then Loss else Breakeven)
                else
                  (if jlt exit entry then Win else if jgt exit entry then Loss else Breakeven))
             else f_status prev)
      in prev\<lparr>f_exitPrice := price, f_status := newStatus\<rparr>)"

section \<open>The results of a refresh cycle\<close>

text \<open>
  The keys that the crypto step of a cycle writes: those of the reply, when the
  portfolio has a crypto ticker and the reply arrived.
\<close>

definition cryptoKeys :: "(string \<times> jsnum) list option \<Rightarrow> PortfolioItem list \<Rightarrow> string set" where
  "cryptoKeys fetched items =
     (if cryptoTickers items \<noteq> {} then
        (case fetched of None \<Rightarrow> {} | Some data \<Rightarrow> fst ` set data)
      else {})"

section \<open>Sequences of trade mutations\<close>

text \<open>
  A call of \<open>addTrade\<close> or \<open>editTrade\<close> with what the environment supplies to it (the
  reply of the remote table, the generated id), and a run of such calls, one after the
  other.
\<close>

datatype trade_op =
  AddTrade "string option" string TradeData
| EditTrade "string option" string TradeUpdates

fun applyTradeOp :: "bool \<Rightarrow> trade_op \<Rightarrow> store \<Rightarrow> store" where
  "applyTradeOp remote (AddTrade error uuid tradeData) s = addTrade remote error uuid tradeData s"
| "applyTradeOp remote (EditTrade error i updates) s = editTrade remote error i updates s"

definition runTradeOps :: "bool \<Rightarrow> trade_op list \<Rightarrow> store \<Rightarrow> store" where
  "runTradeOps remote ops s = fold (applyTradeOp remote) ops s"

text \<open>
  How \<open>pnl\<close> follows status and exit price on a stored trade: absent on an Open trade,
  present on a trade that is not Open and has a truthy exit price.
\<close>

definition pnl_tracks :: "Trade \<Rightarrow> bool" where
  "pnl_tracks t =
     ((status t = Open \<longrightarrow> pnl t = None) \<and>
      (status t \<noteq> Open \<and> truthy_opt (exitPrice t) \<longrightarrow> pnl t \<noteq> None))"

section \<open>Concrete values\<close>

text \<open>The provider's state before anything is loaded, and sample records.\<close>

definition initialStore :: store where
  "initialStore =
     \<lparr>journalEntries = [], portfolioItems = [], trades = [], livePrices = Map.empty,
      lastUpdated = None, isRefreshing = False, localStorage = Map.empty,
      scheduledRefreshes = 0\<rparr>"

definition exampleTrade :: "Direction \<Rightarrow> jsnum \<Rightarrow> jsnum option \<Rightarrow> Status \<Rightarrow> TradeData" where
  "exampleTrade d entry x st =
     \<lparr>date = ''2024-01-01'', ticker = ''BTC'', direction = d, entryPrice = entry,
      exitPrice = x, size_t = Fin 8, status = st, rationale = ''breakout'',
      exitReason = None, postExitReflection = None\<rparr>"

definition noUpdates :: TradeUpdates where
  "noUpdates =
     \<lparr>u_date = None, u_ticker = None, u_direction = None, u_entryPrice = None,
      u_exitPrice = None, u_size = None, u_status = None, u_rationale = None,
      u_exitReason = None, u_postExitReflection = None\<rparr>"

definition exampleEntry :: JournalData where
  "exampleEntry =
     \<lparr>entry_date = ''2024-01-01'', macroReview = ''X'', altsMarket = ''Y'', summary = ''Z'',
      sentiment = BULLISH\<rparr>"

definition exampleItem :: "string \<Rightarrow> jsnum \<Rightarrow> AssetType option \<Rightarrow> string \<Rightarrow> PortfolioItem" where
  "exampleItem tok price kind i =
     \<lparr>token = tok, amount = Fin 2, buyPrice = Fin 100, currentPrice = price,
      category = Liquid, assetType = kind, item_id = i\<rparr>"

text \<open>
  A portfolio of one crypto item and one stock item, with given live prices; a stand-in for \<open>Number\<close> on the strings the examples use; a form for a
  trade entered at 100.
\<close>

definition exampleNumber :: "string \<Rightarrow> jsnum" where
  "exampleNumber str =
     (if str = ''90'' then Fin 90 else if str = ''100'' then Fin 100
      else if str = ''110'' then Fin 110 else NaN)"

definition exampleForm :: "Direction \<Rightarrow> TradeForm" where
  "exampleForm d =
     \<lparr>f_date = ''2024-01-01'', f_ticker = ''BTC'', f_direction = d, f_entryPrice = ''100'',
      f_exitPrice = [], f_size = ''8'', f_status = Open, f_rationale = ''breakout'',
      f_exitReason = [], f_postExitReflection = []\<rparr>"

definition examplePortfolio :: "(string \<rightharpoonup> jsnum) \<Rightarrow> store" where
  "examplePortfolio prices =
     initialStore\<lparr>portfolioItems :=
                    [exampleItem ''BTC'' (Fin 40000) (Some Crypto) ''p1'',
                     exampleItem ''AAPL'' (Fin (19012 / 100)) (Some Stock) ''p2''],
                  livePrices := prices\<rparr>"

section \<open>Properties of the trade mutations\<close>

lemmas example_defs = exampleTrade_def noUpdates_def initialStore_def newTrade_def
  addTrade_pnl_def finalTrade_def mergedTrade_def editTrade_pnl_def addTrade_def editTrade_def
  persistToLS_def jsub_def Trade.defs TradeData.defs Let_def

lemma newTrade_pnl: "pnl (newTrade uuid td) = addTrade_pnl td"
  by (simp add: newTrade_def Trade.defs TradeData.defs)

lemma newTrade_id: "trade_id (newTrade uuid td) = uuid"
  by (simp add: newTrade_def Trade.defs TradeData.defs)

lemma newTrade_data: "TradeData.truncate (newTrade uuid td) = td"
  by (simp add: newTrade_def Trade.defs TradeData.defs)

lemma newTrade_fields:
  "status (newTrade uuid td) = status td"
  "exitPrice (newTrade uuid td) = exitPrice td"
  "entryPrice (newTrade uuid td) = entryPrice td"
  "direction (newTrade uuid td) = direction td"
  "size_t (newTrade uuid td) = size_t td"
  by (simp_all add: newTrade_def Trade.defs TradeData.defs)

lemma addTrade_trades:
  "trades (addTrade remote error uuid td s) =
     (if remote \<and> error \<noteq> None then trades s else newTrade uuid td # trades s)"
  by (simp add: addTrade_def persistToLS_def Let_def)

lemma finalTrade_fields:
  "status (finalTrade c u) = status (mergedTrade c u)"
  "exitPrice (finalTrade c u) = exitPrice (mergedTrade c u)"
  "entryPrice (finalTrade c u) = entryPrice (mergedTrade c u)"
  "direction (finalTrade c u) = direction (mergedTrade c u)"
  "size_t (finalTrade c u) = size_t (mergedTrade c u)"
  "trade_id (finalTrade c u) = trade_id c"
  "pnl (finalTrade c u) = editTrade_pnl c (mergedTrade c u)"
  by (simp_all add: finalTrade_def Let_def mergedTrade_def)

lemma editTrade_trades:
  "trades (editTrade remote error i u s) =
     (case find (\<lambda>t. trade_id t = i) (trades s) of
        None \<Rightarrow> trades s
      | Some c \<Rightarrow> if remote \<and> error \<noteq> None then trades s
                  else map (\<lambda>t. if trade_id t = i then finalTrade c u else t) (trades s))"
  by (auto simp: editTrade_def persistToLS_def Let_def split: option.splits)

text \<open>
  Where the guard lets the computation run, the formula is what is stored. A trade that
  \<open>addTrade\<close> stores (on the local path, or when the remote insert reports no error)
  carries the payload's fields, and when its status is not Open and its exit price is
  truthy, its \<open>pnl\<close> is \<open>(exitPrice - entryPrice) / entryPrice * size\<close> for Long and
  \<open>(entryPrice - exitPrice) / entryPrice * size\<close> for Short. The same holds for the
  record that \<open>editTrade\<close> writes in place of the trades with the edited id, on the
  fields of the merged record.
\<close>

lemma pnl_formula:
  "(status td \<noteq> Open \<and> exitPrice td = Some x \<and> truthy x \<and> (remote \<longrightarrow> error = None) \<longrightarrow>
      (\<exists>t. trades (addTrade remote error uuid td s) = t # trades s \<and>
           TradeData.truncate t = td \<and>
           pnl t = Some (if direction td = LONG
                         then jmul (jdiv (jsub x (entryPrice td)) (entryPrice td)) (size_t td)
                         else jmul (jdiv (jsub (entryPrice td) x) (entryPrice td)) (size_t td))))
   \<and> (find (\<lambda>t. trade_id t = i) (trades s) = Some currentTrade \<and> (remote \<longrightarrow> error = None) \<longrightarrow>
      (\<exists>t. trades (editTrade remote error i updates s) =
             map (\<lambda>t'. if trade_id t' = i then t else t') (trades s) \<and>
           TradeData.truncate t = TradeData.truncate (mergedTrade currentTrade updates) \<and>
           (status t \<noteq> Open \<and> exitPrice t = Some x \<and> truthy x \<longrightarrow>
            pnl t = Some (if direction t = LONG
                          then jmul (jdiv (jsub x (entryPrice t)) (entryPrice t)) (size_t t)
                          else jmul (jdiv (jsub (entryPrice t) x) (entryPrice t)) (size_t t)))))"
proof (intro conjI impI)
  assume a: "status td \<noteq> Open \<and> exitPrice td = Some x \<and> truthy x \<and> (remote \<longrightarrow> error = None)"
  let ?t = "newTrade uuid td"
  from a have "trades (addTrade remote error uuid td s) = ?t # trades s"
    by (auto simp: addTrade_trades)
  moreover have "TradeData.truncate ?t = td" by (rule newTrade_data)
  moreover from a have "pnl ?t = Some (if direction td = LONG
                         then jmul (jdiv (jsub x (entryPrice td)) (entryPrice td)) (size_t td)
                         else jmul (jdiv (jsub (entryPrice td) x) (entryPrice td)) (size_t td))"
    by (simp add: newTrade_pnl addTrade_pnl_def Let_def)
  ultimately show "\<exists>t. trades (addTrade remote error uuid td s) = t # trades s \<and>
           TradeData.truncate t = td \<and>
           pnl t = Some (if direction td = LONG
                         then jmul (jdiv (jsub x (entryPrice td)) (entryPrice td)) (size_t td)
                         else jmul (jdiv (jsub (entryPrice td) x) (entryPrice td)) (size_t td))"
    by blast
next
  assume a: "find (\<lambda>t. trade_id t = i) (trades s) = Some currentTrade \<and> (remote \<longrightarrow> error = None)"
  let ?t = "finalTrade currentTrade updates"
  from a have "trades (editTrade remote error i updates s) =
             map (\<lambda>t'. if trade_id t' = i then ?t else t') (trades s)"
    by (auto simp: editTrade_trades)
  moreover have "TradeData.truncate ?t = TradeData.truncate (mergedTrade currentTrade updates)"
    by (simp add: finalTrade_def Let_def TradeData.defs)
  moreover have "status ?t \<noteq> Open \<and> exitPrice ?t = Some x \<and> truthy x \<longrightarrow>
            pnl ?t = Some (if direction ?t = LONG
                          then jmul (jdiv (jsub x (entryPrice ?t)) (entryPrice ?t)) (size_t ?t)
                          else jmul (jdiv (jsub (entryPrice ?t) x) (entryPrice ?t)) (size_t ?t))"
    by (simp add: finalTrade_fields editTrade_pnl_def Let_def)
  ultimately show "\<exists>t. trades (editTrade remote error i updates s) =
             map (\<lambda>t'. if trade_id t' = i then t else t') (trades s) \<and>
           TradeData.truncate t = TradeData.truncate (mergedTrade currentTrade updates) \<and>
           (status t \<noteq> Open \<and> exitPrice t = Some x \<and> truthy x \<longrightarrow>
            pnl t = Some (if direction t = LONG
                          then jmul (jdiv (jsub x (entryPrice t)) (entryPrice t)) (size_t t)
                          else jmul (jdiv (jsub (entryPrice t) x) (entryPrice t)) (size_t t)))"
    by blast
qed

text \<open>
  A Long trade entered at 100, exited at 150, of size 8, added as a Win, is stored with
  \<open>pnl = 4\<close>; an open Short entered at 100, edited to a Win with exit price 50, is
  stored with \<open>pnl = 4\<close>.
\<close>

lemma pnl_formula_example:
  "(\<exists>t. trades (addTrade False None ''t1'' (exampleTrade LONG (Fin 100) (Some (Fin 150)) Win)
               initialStore) = [t] \<and>
        pnl t = Some (Fin 4)) \<and>
   (\<exists>t. trades (editTrade False None ''t1''
                 (noUpdates\<lparr>u_exitPrice := Some (Some (Fin 50)), u_status := Some Win\<rparr>)
                 (initialStore\<lparr>trades :=
                    [newTrade ''t1'' (exampleTrade SHORT (Fin 100) None Open)]\<rparr>)) = [t] \<and>
        pnl t = Some (Fin 4))"
  using pnl_formula [where td = "exampleTrade LONG (Fin 100) (Some (Fin 150)) Win"
      and x = "Fin 150" and remote = False and error = None and uuid = "''t1''"
      and s = initialStore]
    pnl_formula [where x = "Fin 50" and remote = False and error = None and i = "''t1''"
      and s = "initialStore\<lparr>trades :=
                 [newTrade ''t1'' (exampleTrade SHORT (Fin 100) None Open)]\<rparr>"
      and currentTrade = "newTrade ''t1'' (exampleTrade SHORT (Fin 100) None Open)"
      and updates = "noUpdates\<lparr>u_exitPrice := Some (Some (Fin 50)), u_status := Some Win\<rparr>"]
  by (simp add: example_defs)

text \<open>
  C1. A closed trade with a present exit price has the \<open>pnl\<close> of the formula. The
  code tests the exit price for truthiness where it means to test for \<open>null\<close>, and
  misses the claim at an exit price of \<open>0\<close>, which the form passes on as a number. A
  Long trade entered at 100 and added as a Loss with exit price 0 and size 8 has a
  status that is not Open and a present exit price, and the formula gives \<open>-8\<close>:
  \<open>addTrade\<close> stores it without a \<open>pnl\<close>. A Long Win of the same entry and size,
  exited at 150 (\<open>pnl = 4\<close>) and then edited to a Loss with exit price 0, is stored by
  \<open>editTrade\<close> with the \<open>pnl = 4\<close> of before, not \<open>-8\<close>.
\<close>

theorem pnl_formula_zero_exit:
  "status (exampleTrade LONG (Fin 100) (Some (Fin 0)) Loss) \<noteq> Open \<and>
   exitPrice (exampleTrade LONG (Fin 100) (Some (Fin 0)) Loss) = Some (Fin 0) \<and>
   map pnl (trades (addTrade False None ''t1''
      (exampleTrade LONG (Fin 100) (Some (Fin 0)) Loss) initialStore)) = [None] \<and>
   map (\<lambda>t. (direction t, entryPrice t, exitPrice t, size_t t, status t, pnl t))
     (trades (editTrade False None ''t1''
        (noUpdates\<lparr>u_exitPrice := Some (Some (Fin 0)), u_status := Some Loss\<rparr>)
        (addTrade False None ''t1'' (exampleTrade LONG (Fin 100) (Some (Fin 150)) Win)
           initialStore))) =
     [(LONG, Fin 100, Some (Fin 0), Fin 8, Loss, Some (Fin 4))] \<and>
   jmul (jdiv (jsub (Fin 0) (Fin 100)) (Fin 100)) (Fin 8) = Fin (- 8)"
  by (simp add: example_defs)

lemma pnl_tracks_newTrade: "pnl_tracks (newTrade uuid td)"
  by (simp add: pnl_tracks_def newTrade_pnl newTrade_fields addTrade_pnl_def Let_def)

lemma pnl_tracks_finalTrade: "pnl_tracks (finalTrade c u)"
  by (simp add: pnl_tracks_def finalTrade_fields editTrade_pnl_def Let_def)

lemma pnl_tracks_addTrade:
  "list_all pnl_tracks (trades s) \<Longrightarrow>
   list_all pnl_tracks (trades (addTrade remote error uuid td s))"
  by (simp add: addTrade_trades pnl_tracks_newTrade)

lemma pnl_tracks_editTrade:
  "list_all pnl_tracks (trades s) \<Longrightarrow>
   list_all pnl_tracks (trades (editTrade remote error i u s))"
  by (auto simp: editTrade_trades pnl_tracks_finalTrade list_all_iff split: option.splits)

lemma pnl_tracks_applyTradeOp:
  "list_all pnl_tracks (trades s) \<Longrightarrow> list_all pnl_tracks (trades (applyTradeOp remote op s))"
  by (cases op) (simp_all add: pnl_tracks_addTrade pnl_tracks_editTrade)

lemma pnl_tracks_fold:
  "list_all pnl_tracks (trades s) \<Longrightarrow>
   list_all pnl_tracks (trades (fold (applyTradeOp remote) ops s))"
proof (induction ops arbitrary: s)
  case Nil
  then show ?case by simp
next
  case (Cons op ops)
  from Cons.prems have "list_all pnl_tracks (trades (applyTradeOp remote op s))"
    by (rule pnl_tracks_applyTradeOp)
  then show ?case using Cons.IH by simp
qed

text \<open>
  C2, as amended. Along every run of \<open>addTrade\<close> and \<open>editTrade\<close> calls, from a
  collection where it holds (the empty one, for instance), every stored trade with
  status Open has no \<open>pnl\<close>, whatever its exit price, and every stored trade whose
  status is not Open and whose exit price is a number other than \<open>0\<close> and NaN has
  one. A record built by \<open>addTrade\<close> has a \<open>pnl\<close> only if its status is not Open and
  its exit price is present. An edit whose merged record is not Open and has no exit
  price writes the merged fields and keeps the \<open>pnl\<close> that was stored: there a
  \<open>pnl\<close> can be present without an exit price.
\<close>

theorem pnl_presence_invariant:
  "(list_all pnl_tracks (trades s) \<longrightarrow>
      list_all pnl_tracks (trades (runTradeOps remote ops s)))
   \<and> list_all pnl_tracks (trades initialStore)
   \<and> (pnl (newTrade uuid td) \<noteq> None \<longrightarrow> status td \<noteq> Open \<and> exitPrice td \<noteq> None)
   \<and> (find (\<lambda>t. trade_id t = i) (trades s) = Some currentTrade \<and> (remote \<longrightarrow> error = None) \<and>
      status (mergedTrade currentTrade updates) \<noteq> Open \<and>
      exitPrice (mergedTrade currentTrade updates) = None \<longrightarrow>
      (\<exists>t. trades (editTrade remote error i updates s) =
             map (\<lambda>t'. if trade_id t' = i then t else t') (trades s) \<and>
           TradeData.truncate t = TradeData.truncate (mergedTrade currentTrade updates) \<and>
           pnl t = pnl currentTrade))"
proof (intro conjI impI)
  assume "list_all pnl_tracks (trades s)"
  then show "list_all pnl_tracks (trades (runTradeOps remote ops s))"
    unfolding runTradeOps_def by (rule pnl_tracks_fold)
next
  show "list_all pnl_tracks (trades initialStore)"
    by (simp add: initialStore_def)
next
  assume "pnl (newTrade uuid td) \<noteq> None"
  then have g: "status td \<noteq> Open \<and> truthy_opt (exitPrice td)"
    by (simp add: newTrade_pnl addTrade_pnl_def split: if_splits)
  then show "status td \<noteq> Open" by simp
  from g show "exitPrice td \<noteq> None" by (cases "exitPrice td") simp_all
next
  assume a: "find (\<lambda>t. trade_id t = i) (trades s) = Some currentTrade \<and>
      (remote \<longrightarrow> error = None) \<and>
      status (mergedTrade currentTrade updates) \<noteq> Open \<and>
      exitPrice (mergedTrade currentTrade updates) = None"
  let ?t = "finalTrade currentTrade updates"
  from a have "trades (editTrade remote error i updates s) =
             map (\<lambda>t'. if trade_id t' = i then ?t else t') (trades s)"
    by (auto simp: editTrade_trades)
  moreover have "TradeData.truncate ?t = TradeData.truncate (mergedTrade currentTrade updates)"
    by (simp add: finalTrade_def Let_def TradeData.defs)
  moreover from a have "pnl ?t = pnl currentTrade"
    by (simp add: finalTrade_fields editTrade_pnl_def)
  ultimately show "\<exists>t. trades (editTrade remote error i updates s) =
             map (\<lambda>t'. if trade_id t' = i then t else t') (trades s) \<and>
           TradeData.truncate t = TradeData.truncate (mergedTrade currentTrade updates) \<and>
           pnl t = pnl currentTrade"
    by blast
qed

text \<open>
  A Win with exit price 150 is added and then edited back to Open: the stored trade
  keeps its exit price and loses its \<open>pnl\<close>. A Short Loss exited at 150 (\<open>pnl = -4\<close>)
  whose exit price is edited away stays a Loss and keeps \<open>pnl = -4\<close>.
\<close>

theorem pnl_presence_invariant_witness:
  "list_all pnl_tracks
     (trades (runTradeOps False
        [AddTrade None ''t1'' (exampleTrade LONG (Fin 100) (Some (Fin 150)) Win),
         EditTrade None ''t1'' (noUpdates\<lparr>u_status := Some Open\<rparr>)] initialStore)) \<and>
   map (\<lambda>t. (status t, exitPrice t, pnl t))
     (trades (runTradeOps False
        [AddTrade None ''t1'' (exampleTrade LONG (Fin 100) (Some (Fin 150)) Win),
         EditTrade None ''t1'' (noUpdates\<lparr>u_status := Some Open\<rparr>)] initialStore)) =
     [(Open, Some (Fin 150), None)] \<and>
   pnl (newTrade ''t1'' (exampleTrade LONG (Fin 100) (Some (Fin 150)) Win)) = Some (Fin 4) \<and>
   (\<exists>t. trades (editTrade False None ''t2'' (noUpdates\<lparr>u_exitPrice := Some None\<rparr>)
             (initialStore\<lparr>trades :=
                [newTrade ''t2'' (exampleTrade SHORT (Fin 100) (Some (Fin 150)) Loss)]\<rparr>)) = [t] \<and>
        status t = Loss \<and> exitPrice t = None \<and> pnl t = Some (Fin (- 4)))"
  using pnl_presence_invariant [where s = initialStore and remote = False and ops =
      "[AddTrade None ''t1'' (exampleTrade LONG (Fin 100) (Some (Fin 150)) Win),
        EditTrade None ''t1'' (noUpdates\<lparr>u_status := Some Open\<rparr>)]"
      and uuid = "''t1''" and td = "exampleTrade LONG (Fin 100) (Some (Fin 150)) Win"]
    pnl_presence_invariant [where remote = False and error = None and i = "''t2''"
      and s = "initialStore\<lparr>trades :=
                 [newTrade ''t2'' (exampleTrade SHORT (Fin 100) (Some (Fin 150)) Loss)]\<rparr>"
      and currentTrade = "newTrade ''t2'' (exampleTrade SHORT (Fin 100) (Some (Fin 150)) Loss)"
      and updates = "noUpdates\<lparr>u_exitPrice := Some None\<rparr>"]
  by (simp add: runTradeOps_def example_defs)

text \<open>
  C2 as stated fails: a Win with exit price 150 is added (\<open>pnl = 4\<close>) and then edited
  with \<open>exitPrice: null\<close>. The stored trade is still a Win, has no exit price, and
  keeps \<open>pnl = 4\<close>: a \<open>pnl\<close> is present although the exit price is absent.
\<close>

theorem pnl_kept_without_exit:
  "map (\<lambda>t. (status t, exitPrice t, pnl t))
     (trades (runTradeOps False
        [AddTrade None ''t1'' (exampleTrade LONG (Fin 100) (Some (Fin 150)) Win),
         EditTrade None ''t1'' (noUpdates\<lparr>u_exitPrice := Some None\<rparr>)] initialStore)) =
     [(Win, None, Some (Fin 4))]"
  by (simp add: runTradeOps_def example_defs)

lemma jmul_inf_not_finite: "\<not> isFinite (jmul PosInf y)" "\<not> isFinite (jmul NegInf y)"
  by (cases y; simp add: signedInf_def)+

text \<open>
  C8. With an entry price of \<open>0\<close>, a status that is not Open and a positive exit price,
  \<open>addTrade\<close> and \<open>editTrade\<close> carry out the division by the zero entry price: the
  quotient is an infinity (positive for Long, negative for Short), and the \<open>pnl\<close>
  that is stored is present and not finite. Nothing rejects, clamps or skips the zero
  denominator.
\<close>

theorem zero_entry_unguarded:
  "(entryPrice td = Fin 0 \<and> status td \<noteq> Open \<and> exitPrice td = Some (Fin x) \<and> 0 < x \<longrightarrow>
      pnl (newTrade uuid td) =
        Some (jmul (jdiv (if direction td = LONG then jsub (Fin x) (Fin 0)
                          else jsub (Fin 0) (Fin x)) (Fin 0)) (size_t td)) \<and>
      pnl (newTrade uuid td) =
        Some (jmul (if direction td = LONG then PosInf else NegInf) (size_t td)) \<and>
      (\<exists>v. pnl (newTrade uuid td) = Some v \<and> \<not> isFinite v))
   \<and> (entryPrice (mergedTrade c u) = Fin 0 \<and> status (mergedTrade c u) \<noteq> Open \<and>
      exitPrice (mergedTrade c u) = Some (Fin x) \<and> 0 < x \<longrightarrow>
      pnl (finalTrade c u) =
        Some (jmul (jdiv (if direction (mergedTrade c u) = LONG then jsub (Fin x) (Fin 0)
                          else jsub (Fin 0) (Fin x)) (Fin 0)) (size_t (mergedTrade c u))) \<and>
      pnl (finalTrade c u) =
        Some (jmul (if direction (mergedTrade c u) = LONG then PosInf else NegInf)
                (size_t (mergedTrade c u))) \<and>
      (\<exists>v. pnl (finalTrade c u) = Some v \<and> \<not> isFinite v))"
  by (simp add: newTrade_pnl addTrade_pnl_def finalTrade_fields editTrade_pnl_def Let_def
      jsub_def signedInf_def jmul_inf_not_finite)

text \<open>
  A Long Win entered at 0 and exited at 150 is stored with \<open>pnl = Infinity\<close>; a Short
  Loss exited at 150 whose entry price is edited to 0 is stored with \<open>pnl = -Infinity\<close>.
\<close>

theorem zero_entry_unguarded_witness:
  "map pnl (trades (addTrade False None ''t1''
      (exampleTrade LONG (Fin 0) (Some (Fin 150)) Win) initialStore)) = [Some PosInf] \<and>
   map pnl (trades (editTrade False None ''t1'' (noUpdates\<lparr>u_entryPrice := Some (Fin 0)\<rparr>)
      (initialStore\<lparr>trades :=
         [newTrade ''t1'' (exampleTrade SHORT (Fin 100) (Some (Fin 150)) Loss)]\<rparr>))) =
     [Some NegInf]"
  using zero_entry_unguarded [where td = "exampleTrade LONG (Fin 0) (Some (Fin 150)) Win"
      and x = 150 and uuid = "''t1''"
      and c = "newTrade ''t1'' (exampleTrade SHORT (Fin 100) (Some (Fin 150)) Loss)"
      and u = "noUpdates\<lparr>u_entryPrice := Some (Fin 0)\<rparr>"]
  by (simp add: example_defs signedInf_def)

text \<open>
  C9. An exit price of \<open>0\<close> is handled as an absent one. \<open>addTrade\<close> with a status that
  is not Open and exit price \<open>0\<close> stores the trade without a \<open>pnl\<close>: the record is the
  one built from the same payload with no exit price, but for the exit price itself.
  \<open>editTrade\<close> whose merged record is not Open and has exit price \<open>0\<close> writes the
  merged fields and leaves the \<open>pnl\<close> of the trade it found as it was.
\<close>

theorem zero_exit_is_absent:
  "(status td \<noteq> Open \<and> exitPrice td = Some (Fin 0) \<and> (remote \<longrightarrow> error = None) \<longrightarrow>
      (\<exists>t. trades (addTrade remote error uuid td s) = t # trades s \<and>
           TradeData.truncate t = td \<and> pnl t = None \<and>
           t = newTrade uuid (td\<lparr>exitPrice := None\<rparr>)\<lparr>exitPrice := Some (Fin 0)\<rparr>))
   \<and> (find (\<lambda>t. trade_id t = i) (trades s) = Some currentTrade \<and> (remote \<longrightarrow> error = None) \<and>
      status (mergedTrade currentTrade updates) \<noteq> Open \<and>
      exitPrice (mergedTrade currentTrade updates) = Some (Fin 0) \<longrightarrow>
      (\<exists>t. trades (editTrade remote error i updates s) =
             map (\<lambda>t'. if trade_id t' = i then t else t') (trades s) \<and>
           TradeData.truncate t = TradeData.truncate (mergedTrade currentTrade updates) \<and>
           pnl t = pnl currentTrade))"
proof (intro conjI impI)
  assume a: "status td \<noteq> Open \<and> exitPrice td = Some (Fin 0) \<and> (remote \<longrightarrow> error = None)"
  let ?t = "newTrade uuid td"
  from a have "trades (addTrade remote error uuid td s) = ?t # trades s"
    by (auto simp: addTrade_trades)
  moreover have "TradeData.truncate ?t = td" by (rule newTrade_data)
  moreover from a have "pnl ?t = None"
    by (simp add: newTrade_pnl addTrade_pnl_def)
  moreover from a have "?t = newTrade uuid (td\<lparr>exitPrice := None\<rparr>)\<lparr>exitPrice := Some (Fin 0)\<rparr>"
    by (simp add: newTrade_def addTrade_pnl_def Trade.defs TradeData.defs)
  ultimately show "\<exists>t. trades (addTrade remote error uuid td s) = t # trades s \<and>
           TradeData.truncate t = td \<and> pnl t = None \<and>
           t = newTrade uuid (td\<lparr>exitPrice := None\<rparr>)\<lparr>exitPrice := Some (Fin 0)\<rparr>"
    by blast
next
  assume a: "find (\<lambda>t. trade_id t = i) (trades s) = Some currentTrade \<and>
      (remote \<longrightarrow> error = None) \<and>
      status (mergedTrade currentTrade updates) \<noteq> Open \<and>
      exitPrice (mergedTrade currentTrade updates) = Some (Fin 0)"
  let ?t = "finalTrade currentTrade updates"
  from a have "trades (editTrade remote error i updates s) =
             map (\<lambda>t'. if trade_id t' = i then ?t else t') (trades s)"
    by (auto simp: editTrade_trades)
  moreover have "TradeData.truncate ?t = TradeData.truncate (mergedTrade currentTrade updates)"
    by (simp add: finalTrade_def Let_def TradeData.defs)
  moreover from a have "pnl ?t = pnl currentTrade"
    by (simp add: finalTrade_fields editTrade_pnl_def)
  ultimately show "\<exists>t. trades (editTrade remote error i updates s) =
             map (\<lambda>t'. if trade_id t' = i then t else t') (trades s) \<and>
           TradeData.truncate t = TradeData.truncate (mergedTrade currentTrade updates) \<and>
           pnl t = pnl currentTrade"
    by blast
qed

text \<open>
  A Long Loss with exit price 0 is stored without a \<open>pnl\<close>; a Long Win exited at 150
  (\<open>pnl = 4\<close>) whose exit price is edited to 0 keeps \<open>pnl = 4\<close>.
\<close>

theorem zero_exit_is_absent_witness:
  "map (\<lambda>t. (exitPrice t, pnl t))
     (trades (addTrade False None ''t1'' (exampleTrade LONG (Fin 100) (Some (Fin 0)) Loss)
        initialStore)) = [(Some (Fin 0), None)] \<and>
   map (\<lambda>t. (exitPrice t, pnl t))
     (trades (editTrade False None ''t1'' (noUpdates\<lparr>u_exitPrice := Some (Some (Fin 0))\<rparr>)
        (initialStore\<lparr>trades :=
           [newTrade ''t1'' (exampleTrade LONG (Fin 100) (Some (Fin 150)) Win)]\<rparr>))) =
     [(Some (Fin 0), Some (Fin 4))]"
  using zero_exit_is_absent [where td = "exampleTrade LONG (Fin 100) (Some (Fin 0)) Loss"
      and remote = False and error = None and uuid = "''t1''" and i = "''t1''"
      and s = "initialStore\<lparr>trades :=
                 [newTrade ''t1'' (exampleTrade LONG (Fin 100) (Some (Fin 150)) Win)]\<rparr>"
      and currentTrade = "newTrade ''t1'' (exampleTrade LONG (Fin 100) (Some (Fin 150)) Win)"
      and updates = "noUpdates\<lparr>u_exitPrice := Some (Some (Fin 0))\<rparr>"]
  by (simp add: example_defs)

text \<open>
  C10. \<open>editTrade\<close> with an id that no stored trade has returns at once: the whole
  state (collections, live prices, local storage, scheduled refreshes) is as before,
  whatever the strategy and the reply of the remote table; the function has no error
  result to signal.
\<close>

theorem editTrade_unknown_id:
  "\<forall>t \<in> set (trades s). trade_id t \<noteq> i \<Longrightarrow> editTrade remote error i updates s = s"
proof -
  assume "\<forall>t \<in> set (trades s). trade_id t \<noteq> i"
  then have "find (\<lambda>t. trade_id t = i) (trades s) = None"
    by (simp add: find_None_iff)
  then show ?thesis by (simp add: editTrade_def)
qed

text \<open>The store holds the trade \<open>t1\<close>; an edit of \<open>t2\<close> changes nothing.\<close>

theorem editTrade_unknown_id_witness:
  "(\<forall>remote error.
      editTrade remote error ''t2'' (noUpdates\<lparr>u_status := Some Win\<rparr>)
        (initialStore\<lparr>trades := [newTrade ''t1'' (exampleTrade LONG (Fin 100) None Open)]\<rparr>) =
      initialStore\<lparr>trades := [newTrade ''t1'' (exampleTrade LONG (Fin 100) None Open)]\<rparr>) \<and>
   map trade_id
     (trades (initialStore\<lparr>trades :=
        [newTrade ''t1'' (exampleTrade LONG (Fin 100) None Open)]\<rparr>)) = [''t1'']"
  using editTrade_unknown_id [where i = "''t2''"
      and s = "initialStore\<lparr>trades :=
                 [newTrade ''t1'' (exampleTrade LONG (Fin 100) None Open)]\<rparr>"]
  by (simp add: newTrade_id)

text \<open>
  C3, as amended. The comparison of exit and entry price is made by the handler of the
  form's exit price field: when the text typed and the entry price text are not empty
  and \<open>Number\<close> reads them as finite numbers, the form's status becomes Win, Loss or
  Breakeven (Long: exit above entry is a Win, exit below entry a Loss, equal Breakeven;
  Short: Win and Loss swapped). \<open>editTrade\<close> compares nothing: the status it writes is
  the one in the update, or the stored one when the update has none.
\<close>

theorem status_inference:
  "(price \<noteq> [] \<and> f_entryPrice prev \<noteq> [] \<and> toNumber price = Fin x \<and>
    toNumber (f_entryPrice prev) = Fin e \<longrightarrow>
      f_status (handleExitPriceChange toNumber price prev) =
        (if f_direction prev = LONG
         then (if e < x then Win else if x < e then Loss else Breakeven)
         else (if x < e then Win else if e < x then Loss else Breakeven)))
   \<and> status (finalTrade currentTrade updates) =
       (case u_status updates of None \<Rightarrow> status currentTrade | Some st \<Rightarrow> st)"
  by (simp add: handleExitPriceChange_def Let_def jgt_def finalTrade_fields mergedTrade_def)

text \<open>
  The spec's examples on the form, entry price 100: Long with 110, 90, 100 and Short
  with 90, 110.
\<close>

theorem status_inference_witness:
  "map (\<lambda>(d, price). f_status (handleExitPriceChange exampleNumber price (exampleForm d)))
     [(LONG, ''110''), (LONG, ''90''), (LONG, ''100''), (SHORT, ''90''), (SHORT, ''110'')] =
     [Win, Loss, Breakeven, Win, Loss]"
  using status_inference [of "''110''" "exampleForm LONG" exampleNumber 110 100]
    status_inference [of "''90''" "exampleForm LONG" exampleNumber 90 100]
    status_inference [of "''100''" "exampleForm LONG" exampleNumber 100 100]
    status_inference [of "''90''" "exampleForm SHORT" exampleNumber 90 100]
    status_inference [of "''110''" "exampleForm SHORT" exampleNumber 110 100]
  by (simp add: exampleNumber_def exampleForm_def)

text \<open>
  C3 as stated fails: \<open>editTrade\<close> with only \<open>exitPrice: 110\<close> on an open Long trade
  entered at 100 stores the exit price and leaves the status Open (and the \<open>pnl\<close>
  absent), where the claim says Win.
\<close>

theorem editTrade_keeps_status:
  "map (\<lambda>t. (direction t, entryPrice t, exitPrice t, status t, pnl t))
     (trades (editTrade False None ''t1'' (noUpdates\<lparr>u_exitPrice := Some (Some (Fin 110))\<rparr>)
        (initialStore\<lparr>trades :=
           [newTrade ''t1'' (exampleTrade LONG (Fin 100) None Open)]\<rparr>))) =
     [(LONG, Fin 100, Some (Fin 110), Open, None)]"
  by (simp add: example_defs)

section \<open>Properties of the price refresh\<close>

lemma mergeCrypto_other: "key \<notin> fst ` set data \<Longrightarrow> mergeCrypto data m key = m key"
  by (induction data arbitrary: m) auto

lemma mergeCrypto_key:
  "key \<in> fst ` set data \<Longrightarrow> \<exists>v. (key, v) \<in> set data \<and> mergeCrypto data m key = Some v"
proof (induction data arbitrary: m)
  case Nil
  then show ?case by simp
next
  case (Cons p data)
  obtain k v where p: "p = (k, v)" by (cases p)
  show ?case
  proof (cases "key \<in> fst ` set data")
    case True
    from Cons.IH [OF True] obtain v' where
      "(key, v') \<in> set data" "mergeCrypto data (m(k \<mapsto> v)) key = Some v'"
      by blast
    then have "(key, v') \<in> set (p # data) \<and> mergeCrypto (p # data) m key = Some v'"
      by (simp add: p)
    then show ?thesis by blast
  next
    case False
    with Cons.prems have "key = k" by (auto simp: p)
    with False show ?thesis by (simp add: p mergeCrypto_other)
  qed
qed

lemma mergeCrypto_upd:
  "t \<notin> fst ` set data \<Longrightarrow> mergeCrypto data (m(t \<mapsto> v)) = (mergeCrypto data m)(t \<mapsto> v)"
proof (induction data arbitrary: m)
  case Nil
  then show ?case by simp
next
  case (Cons p data)
  obtain k w where p: "p = (k, w)" by (cases p)
  from Cons.prems have ne: "t \<noteq> k" and rest: "t \<notin> fst ` set data" by (auto simp: p)
  have tw: "(m(t \<mapsto> v))(k \<mapsto> w) = (m(k \<mapsto> w))(t \<mapsto> v)"
    using ne by (rule fun_upd_twist)
  have "mergeCrypto (p # data) (m(t \<mapsto> v)) = mergeCrypto data ((m(k \<mapsto> w))(t \<mapsto> v))"
    by (simp only: p mergeCrypto.simps tw)
  also have "\<dots> = (mergeCrypto data (m(k \<mapsto> w)))(t \<mapsto> v)"
    by (rule Cons.IH [OF rest])
  also have "\<dots> = (mergeCrypto (p # data) m)(t \<mapsto> v)"
    by (simp only: p mergeCrypto.simps)
  finally show ?case .
qed

lemma simulateStocks_other:
  "key \<notin> token ` set items \<Longrightarrow> simulateStocks random k items m key = m key"
  by (induction items arbitrary: m k) auto

lemma simulateStocks_key:
  "key \<in> token ` set items \<Longrightarrow>
   \<exists>j m'. j < length items \<and> token (items ! j) = key \<and>
     simulateStocks random k items m key = Some (simulatedPrice (random (k + j)) (items ! j) m')"
proof (induction items arbitrary: m k)
  case Nil
  then show ?case by simp
next
  case (Cons item items)
  show ?case
  proof (cases "key \<in> token ` set items")
    case True
    from Cons.IH [OF True, of "Suc k" "m(token item \<mapsto> simulatedPrice (random k) item m)"]
    obtain j m' where j: "j < length items" "token (items ! j) = key"
      "simulateStocks random (Suc k) items (m(token item \<mapsto> simulatedPrice (random k) item m)) key
         = Some (simulatedPrice (random (Suc k + j)) (items ! j) m')"
      by blast
    then have "Suc j < length (item # items) \<and> token ((item # items) ! Suc j) = key \<and>
      simulateStocks random k (item # items) m key =
        Some (simulatedPrice (random (k + Suc j)) ((item # items) ! Suc j) m')"
      by simp
    then show ?thesis by blast
  next
    case False
    with Cons.prems have "token item = key" by auto
    with False have "0 < length (item # items) \<and> token ((item # items) ! 0) = key \<and>
      simulateStocks random k (item # items) m key =
        Some (simulatedPrice (random (k + 0)) ((item # items) ! 0) m)"
      by (simp add: simulateStocks_other)
    then show ?thesis by blast
  qed
qed

lemma simulatedPrice_cong:
  "m (token item) = m' (token item) \<Longrightarrow> simulatedPrice r item m = simulatedPrice r item m'"
  by (simp add: simulatedPrice_def)

lemma simulateStocks_mergeCrypto:
  "token ` set items \<inter> fst ` set data = {} \<Longrightarrow>
   simulateStocks random k items (mergeCrypto data m) =
   mergeCrypto data (simulateStocks random k items m)"
proof (induction items arbitrary: m k)
  case Nil
  then show ?case by simp
next
  case (Cons item items)
  from Cons.prems have t: "token item \<notin> fst ` set data"
    and rest: "token ` set items \<inter> fst ` set data = {}" by auto
  have p: "simulatedPrice (random k) item (mergeCrypto data m) = simulatedPrice (random k) item m"
    by (rule simulatedPrice_cong) (simp add: mergeCrypto_other [OF t])
  have "simulateStocks random k (item # items) (mergeCrypto data m) =
        simulateStocks random (Suc k) items
          (mergeCrypto data (m(token item \<mapsto> simulatedPrice (random k) item m)))"
    by (simp add: p mergeCrypto_upd [OF t])
  also have "\<dots> = mergeCrypto data
      (simulateStocks random (Suc k) items (m(token item \<mapsto> simulatedPrice (random k) item m)))"
    by (rule Cons.IH [OF rest])
  finally show ?case by simp
qed

lemma simulateStocks_fetchCrypto:
  "cryptoKeys fetched items \<inter> token ` set stocks = {} \<Longrightarrow>
   simulateStocks random k stocks (fetchCrypto fetched items m) =
   fetchCrypto fetched items (simulateStocks random k stocks m)"
  by (cases "cryptoTickers items = {}"; cases fetched)
    (simp_all add: fetchCrypto_def cryptoKeys_def Int_commute simulateStocks_mergeCrypto)

lemma fetchCrypto_other:
  "key \<notin> cryptoKeys fetched items \<Longrightarrow> fetchCrypto fetched items m key = m key"
  by (cases "cryptoTickers items = {}"; cases fetched)
    (simp_all add: fetchCrypto_def cryptoKeys_def mergeCrypto_other)

lemma fetchCrypto_key:
  "key \<in> cryptoKeys fetched items \<Longrightarrow>
   \<exists>data v. fetched = Some data \<and> (key, v) \<in> set data \<and>
     fetchCrypto fetched items m key = Some v"
  by (cases "cryptoTickers items = {}"; cases fetched)
    (simp_all add: fetchCrypto_def cryptoKeys_def mergeCrypto_key)

text \<open>
  What a cycle of the closure of render \<open>r\<close> leaves in the state, relative to the map
  that the closure holds: a key that neither the crypto reply nor a stock item names has
  the price it has in that map; a key of the crypto reply that is not a stock token has
  a price of the reply; a stock token has the price synthesised for a stock item with
  that token; and when the keys of the reply and the stock tokens are disjoint, merging
  the stock prices first and the crypto reply second gives the same map. The time of
  the merge is recorded.
\<close>

lemma refreshPrices_merge:
  assumes "r_portfolioItems r \<noteq> []"
  shows "(key \<notin> cryptoKeys fetched (r_portfolioItems r) \<union>
                token ` set (stockItems (r_portfolioItems r)) \<longrightarrow>
           livePrices (refreshPrices r fetched random now s) key = r_livePrices r key)
    \<and> (key \<in> cryptoKeys fetched (r_portfolioItems r) \<and>
        key \<notin> token ` set (stockItems (r_portfolioItems r)) \<longrightarrow>
          (\<exists>data v. fetched = Some data \<and> (key, v) \<in> set data \<and>
             livePrices (refreshPrices r fetched random now s) key = Some v))
    \<and> (key \<in> token ` set (stockItems (r_portfolioItems r)) \<longrightarrow>
          (\<exists>j m. j < length (stockItems (r_portfolioItems r)) \<and>
             token (stockItems (r_portfolioItems r) ! j) = key \<and>
             livePrices (refreshPrices r fetched random now s) key =
               Some (simulatedPrice (random j) (stockItems (r_portfolioItems r) ! j) m)))
    \<and> (cryptoKeys fetched (r_portfolioItems r) \<inter>
          token ` set (stockItems (r_portfolioItems r)) = {} \<longrightarrow>
          livePrices (refreshPrices r fetched random now s) =
            fetchCrypto fetched (r_portfolioItems r)
              (simulateStocks random 0 (stockItems (r_portfolioItems r)) (r_livePrices r)))
    \<and> lastUpdated (refreshPrices r fetched random now s) = Some now"
proof -
  let ?items = "r_portfolioItems r"
  let ?stocks = "stockItems ?items"
  let ?s' = "refreshPrices r fetched random now s"
  have lp: "livePrices ?s' = simulateStocks random 0 ?stocks (fetchCrypto fetched ?items (r_livePrices r))"
    using assms by (simp add: refreshPrices_def Let_def)
  have a: "key \<notin> cryptoKeys fetched ?items \<union> token ` set ?stocks \<longrightarrow>
           livePrices ?s' key = r_livePrices r key"
    by (simp add: lp simulateStocks_other fetchCrypto_other)
  have b: "key \<in> cryptoKeys fetched ?items \<and> key \<notin> token ` set ?stocks \<longrightarrow>
          (\<exists>data v. fetched = Some data \<and> (key, v) \<in> set data \<and> livePrices ?s' key = Some v)"
    using fetchCrypto_key [of key fetched ?items "r_livePrices r"]
    by (simp add: lp simulateStocks_other)
  have c: "key \<in> token ` set ?stocks \<longrightarrow>
          (\<exists>j m. j < length ?stocks \<and> token (?stocks ! j) = key \<and>
             livePrices ?s' key = Some (simulatedPrice (random j) (?stocks ! j) m))"
    using simulateStocks_key [of key ?stocks random 0] by (auto simp: lp)
  have d: "cryptoKeys fetched ?items \<inter> token ` set ?stocks = {} \<longrightarrow>
          livePrices ?s' = fetchCrypto fetched ?items (simulateStocks random 0 ?stocks (r_livePrices r))"
    by (simp add: lp simulateStocks_fetchCrypto)
  have e: "lastUpdated ?s' = Some now"
    using assms by (simp add: refreshPrices_def Let_def)
  from a b c d e show ?thesis by blast
qed

text \<open>
  So a cycle of the closure of the current render keeps every price of the state that
  the results do not name: the first call of the polling effect and the refresh button
  of the view are such cycles.
\<close>

lemma refreshPrices_current_keeps:
  "portfolioItems s \<noteq> [] \<Longrightarrow>
   key \<notin> cryptoKeys fetched (portfolioItems s) \<union> token ` set (stockItems (portfolioItems s)) \<Longrightarrow>
   livePrices (refreshPrices (currentRender s) fetched random now s) key = livePrices s key"
  using refreshPrices_merge [of "currentRender s" key fetched random now s]
  by (simp add: currentRender_def)

lemma ex_stock: "stockItems (portfolioItems (examplePortfolio prices)) =
    [exampleItem ''AAPL'' (Fin (19012 / 100)) (Some Stock) ''p2'']"
  by (simp add: examplePortfolio_def stockItems_def isCryptoItem_def exampleItem_def)

lemma ex_crypto: "cryptoTickers (portfolioItems (examplePortfolio prices)) \<noteq> {}"
  by (simp add: examplePortfolio_def cryptoTickers_def isCryptoItem_def exampleItem_def)

lemma ex_render:
  "r_portfolioItems (currentRender (examplePortfolio prices)) =
     portfolioItems (examplePortfolio prices)"
  "r_livePrices (currentRender (examplePortfolio prices)) = prices"
  "portfolioItems (examplePortfolio prices) \<noteq> []"
  by (simp_all add: currentRender_def examplePortfolio_def)

lemma ex_token: "token (exampleItem tok price kind i) = tok"
  by (simp add: exampleItem_def)

lemma ex_price:
  "m tok = None \<Longrightarrow>
   simulatedPrice (Fin (1 / 2)) (exampleItem tok (Fin p) kind i) m = toFixed2 (Fin p)"
  by (simp add: simulatedPrice_def exampleItem_def jsub_def)

text \<open>
  The spec's example, as a cycle of the current render: live prices \<open>{ETH: 3000}\<close>,
  the reply \<open>{BTC: 50000}\<close>, and the stock AAPL at 190.12 with \<open>Math.random()\<close>
  returning 0.5 (no move) give \<open>{ETH: 3000, BTC: 50000, AAPL: 190.12}\<close>.
\<close>

lemma refreshPrices_current_example:
  "livePrices (refreshPrices (currentRender (examplePortfolio [''ETH'' \<mapsto> Fin 3000]))
      (Some [(''BTC'', Fin 50000)]) (\<lambda>k. Fin (1 / 2)) 1
      (examplePortfolio [''ETH'' \<mapsto> Fin 3000])) =
     [''ETH'' \<mapsto> Fin 3000, ''BTC'' \<mapsto> Fin 50000, ''AAPL'' \<mapsto> Fin (19012 / 100)]"
  by (simp add: refreshPrices_def ex_render ex_stock ex_crypto fetchCrypto_def ex_token
      ex_price Let_def)

text \<open>
  C4. The claim holds of a cycle run by the closure of the current render, and fails
  of the cycles of the interval, which the code runs with the closure of the render of
  the polling effect. The portfolio holds BTC (crypto) and AAPL (stock, at 190.12, with
  \<open>Math.random()\<close> returning 0.5), and there are no live prices yet when the effect
  runs, after loading. Its first cycle gets the reply \<open>{BTC: 50000}\<close> and leaves
  \<open>{BTC: 50000, AAPL: 190.12}\<close>. In the next cycle, 15 seconds later, the request
  fails: the results name only AAPL, so the claim keeps BTC at 50000; the code builds
  the new map from the map of the effect's render, which is empty, and the price of BTC
  is gone.
\<close>

theorem polling_drops_live_price:
  "livePrices (pollingEffect (Some [(''BTC'', Fin 50000)], \<lambda>k. Fin (1 / 2), 1) []
      (examplePortfolio Map.empty)) =
     [''BTC'' \<mapsto> Fin 50000, ''AAPL'' \<mapsto> Fin (19012 / 100)] \<and>
   cryptoKeys None (portfolioItems (examplePortfolio Map.empty)) \<union>
     token ` set (stockItems (portfolioItems (examplePortfolio Map.empty))) = {''AAPL''} \<and>
   livePrices (pollingEffect (Some [(''BTC'', Fin 50000)], \<lambda>k. Fin (1 / 2), 1)
      [(None, \<lambda>k. Fin (1 / 2), 2)] (examplePortfolio Map.empty)) =
     [''AAPL'' \<mapsto> Fin (19012 / 100)] \<and>
   livePrices (pollingEffect (Some [(''BTC'', Fin 50000)], \<lambda>k. Fin (1 / 2), 1)
      [(None, \<lambda>k. Fin (1 / 2), 2)] (examplePortfolio Map.empty)) ''BTC'' = None"
proof -
  have keys: "cryptoKeys None (portfolioItems (examplePortfolio Map.empty)) \<union>
     token ` set (stockItems (portfolioItems (examplePortfolio Map.empty))) = {''AAPL''}"
    by (simp add: ex_stock cryptoKeys_def exampleItem_def)
  have one: "livePrices (pollingEffect (Some [(''BTC'', Fin 50000)], \<lambda>k. Fin (1 / 2), 1) []
      (examplePortfolio Map.empty)) =
     [''BTC'' \<mapsto> Fin 50000, ''AAPL'' \<mapsto> Fin (19012 / 100)]"
    by (simp add: pollingEffect_def refreshPrices_def ex_render ex_stock ex_crypto
        fetchCrypto_def ex_token ex_price Let_def)
  have two: "livePrices (pollingEffect (Some [(''BTC'', Fin 50000)], \<lambda>k. Fin (1 / 2), 1)
      [(None, \<lambda>k. Fin (1 / 2), 2)] (examplePortfolio Map.empty)) =
     [''AAPL'' \<mapsto> Fin (19012 / 100)]"
    by (simp add: pollingEffect_def refreshPrices_def ex_render ex_stock ex_crypto
        fetchCrypto_def ex_token ex_price Let_def)
  from keys one two show ?thesis by simp
qed

section \<open>Properties of the portfolio view\<close>

lemma mset_insertRow: "mset (insertRow a bs) = add_mset a (mset bs)"
  by (induction bs) auto

lemma mset_sortRows: "mset (sortRows rows) = mset rows"
  by (induction rows) (simp_all add: sortRows_def mset_insertRow)

text \<open>
  C6. The price a row of the view is valued at is the live price under the item's token
  in upper case when the map has that key, and the item's \<open>currentPrice\<close> otherwise;
  the row's value is that price times the amount. The row carries the item's stored
  fields as they are, the rows of the view are those of the items (in the order of the
  sort), and the total is the sum of the rows' values: the view computes from the items
  and the map and writes to neither.
\<close>

theorem effective_price:
  "effectivePrice (statsRow prices item) =
     (case prices (toUpperCase (token item)) of Some live \<Rightarrow> live | None \<Rightarrow> currentPrice item) \<and>
   isLive (statsRow prices item) = (prices (toUpperCase (token item)) \<noteq> None) \<and>
   value_r (statsRow prices item) = jmul (effectivePrice (statsRow prices item)) (amount item) \<and>
   PortfolioItem.truncate (statsRow prices item) = item \<and>
   mset (dataByToken (stats items prices)) = mset (map (statsRow prices) items) \<and>
   totalValue (stats items prices) =
     fold (\<lambda>item acc. jadd acc (value_r (statsRow prices item))) items (Fin 0)"
  by (simp add: statsRow_def Let_def stats_def mset_sortRows fold_map comp_def
      StatsRow.defs PortfolioItem.defs PortfolioData.defs)

text \<open>
  An item stored as \<open>btc\<close> is valued at the live price of \<open>BTC\<close>; AAPL has no
  live price and is valued at its \<open>currentPrice\<close>, which stays 190.
\<close>

theorem effective_price_witness:
  "map (\<lambda>r. (token r, effectivePrice r, isLive r, value_r r, currentPrice r))
     (dataByToken (stats [exampleItem ''btc'' (Fin 40000) (Some Crypto) ''p1'',
                          exampleItem ''AAPL'' (Fin 190) (Some Stock) ''p2'']
                    [''BTC'' \<mapsto> Fin 50000])) =
     [(''btc'', Fin 50000, True, Fin 100000, Fin 40000),
      (''AAPL'', Fin 190, False, Fin 380, Fin 190)]"
proof -
  have u: "toUpperCase ''btc'' = ''BTC''" "toUpperCase ''AAPL'' = ''AAPL''"
    by code_simp+
  from effective_price [of "[''BTC'' \<mapsto> Fin 50000]"
      "exampleItem ''btc'' (Fin 40000) (Some Crypto) ''p1''"]
  show ?thesis
    by (simp add: stats_def sortRows_def statsRow_def Let_def exampleItem_def u jsub_def jgt_def
      StatsRow.defs PortfolioItem.defs PortfolioData.defs)
qed

section \<open>Properties of the journal and of failed remote writes\<close>

text \<open>
  C5. On the remote strategy, when the reply carries an error: inserting, updating,
  deleting and clearing leave the whole state as it was, in all three collections; the
  two portfolio mutations that schedule a refresh still schedule it, which changes no
  collection, no live price and nothing in local storage.
\<close>

theorem remote_error_keeps_state:
  "addJournalEntry True (Some e) uuid entry s = s \<and>
   deleteJournalEntry True (Some e) i s = s \<and>
   addPortfolioItem True (Some e) uuid item s = scheduleRefresh s \<and>
   editPortfolioItem True (Some e) i itemUpdates s = scheduleRefresh s \<and>
   deletePortfolioItem True (Some e) i s = s \<and>
   addTrade True (Some e) uuid tradeData s = s \<and>
   editTrade True (Some e) i updates s = s \<and>
   deleteTrade True (Some e) i s = s \<and>
   clearTrades True (Some e) s = s \<and>
   journalEntries (scheduleRefresh s) = journalEntries s \<and>
   portfolioItems (scheduleRefresh s) = portfolioItems s \<and>
   trades (scheduleRefresh s) = trades s \<and>
   livePrices (scheduleRefresh s) = livePrices s \<and>
   localStorage (scheduleRefresh s) = localStorage s"
  by (simp add: addJournalEntry_def deleteJournalEntry_def addPortfolioItem_def
      editPortfolioItem_def deletePortfolioItem_def addTrade_def editTrade_def deleteTrade_def
      clearTrades_def scheduleRefresh_def Let_def split: option.splits)

text \<open>
  C7, as amended. On the local strategy, or when the remote insert reports no error,
  the journal collection after \<open>addJournalEntry\<close> is the new record followed by the
  entries that were there, unchanged; the new record has the payload's date,
  macroReview, altsMarket, summary and sentiment, and the generated id.
\<close>

theorem addJournalEntry_front:
  "(remote \<longrightarrow> error = None) \<Longrightarrow>
   \<exists>newEntry. journalEntries (addJournalEntry remote error uuid entry s) =
                 newEntry # journalEntries s \<and>
     entry_date newEntry = entry_date entry \<and>
     macroReview newEntry = macroReview entry \<and>
     altsMarket newEntry = altsMarket entry \<and>
     summary newEntry = summary entry \<and>
     sentiment newEntry = sentiment entry \<and>
     entry_id newEntry = uuid"
  by (auto simp: addJournalEntry_def persistToLS_def Let_def JournalEntry.defs JournalData.defs)

text \<open>The spec's entry, added in front of an entry \<open>j1\<close> on the local strategy.\<close>

theorem addJournalEntry_front_witness:
  "journalEntries (addJournalEntry False None ''j2'' exampleEntry
     (initialStore\<lparr>journalEntries :=
        [JournalData.extend exampleEntry (JournalEntry.fields ''j1'')]\<rparr>)) =
   [\<lparr>entry_date = ''2024-01-01'', macroReview = ''X'', altsMarket = ''Y'', summary = ''Z'',
     sentiment = BULLISH, entry_id = ''j2''\<rparr>,
    \<lparr>entry_date = ''2024-01-01'', macroReview = ''X'', altsMarket = ''Y'', summary = ''Z'',
     sentiment = BULLISH, entry_id = ''j1''\<rparr>]"
  using addJournalEntry_front [where remote = False and error = None and uuid = "''j2''"
      and entry = exampleEntry
      and s = "initialStore\<lparr>journalEntries :=
                 [JournalData.extend exampleEntry (JournalEntry.fields ''j1'')]\<rparr>"]
  by (simp add: exampleEntry_def initialStore_def addJournalEntry_def persistToLS_def Let_def
      JournalEntry.defs JournalData.defs)

text \<open>
  C7 as stated fails on the remote strategy: when the insert is rejected, the journal
  collection is as before, here empty, and the entry is not at its front.
\<close>

theorem addJournalEntry_remote_error:
  "journalEntries (addJournalEntry True (Some ''rejected'') ''j1'' exampleEntry initialStore) = []"
  by (simp add: addJournalEntry_def initialStore_def Let_def)

end
